theory Spec2Isabelle
  imports Complex_Main
begin

section \<open>PhotonUtils: a shallow embedding of \<^verbatim>\<open>photonutils/__init__.py\<close>\<close>

text \<open>
  The module is one Python class, \<^verbatim>\<open>PhotonUtils\<close>, of six class methods over
  floats and the geometry classes of \<^verbatim>\<open>wpimath.geometry\<close>. Python is dynamically
  typed: the annotations of the source are not checked, a call binds its arguments to the
  declared parameters by position, and a method is looked up by name on the value it is
  called on. The embedding keeps all three: values are one datatype, every method takes
  the list of the caller's arguments, and every exception the interpreter raises is a
  value \<open>Inl e\<close> of the result.

  A Python \<^verbatim>\<open>float\<close> is an IEEE double. The arithmetic that the source itself does
  on floats is modelled with the range of a double and its special values: sums,
  differences and quotients overflow to an infinity, a quotient underflows to zero,
  \<^verbatim>\<open>math.tan\<close> raises \<^verbatim>\<open>ValueError\<close> on an infinity, and the float division raises
  \<^verbatim>\<open>ZeroDivisionError\<close> on a zero divisor. The rounding of a result to 53 significant
  bits is not modelled: a finite result is the exact real number, of which the double that
  Python returns is the nearest neighbour.
\<close>

subsection \<open>Exceptions\<close>

datatype error = TypeError | AttributeError | ZeroDivisionError | ValueError

definition bind_result :: "error + 'a \<Rightarrow> ('a \<Rightarrow> error + 'b) \<Rightarrow> error + 'b" where
  "bind_result m f = (case m of Inl e \<Rightarrow> Inl e | Inr v \<Rightarrow> f v)"

subsection \<open>Floats\<close>

text \<open>
  A finite double is the real number it denotes; the other doubles are the two infinities
  and not-a-number. The two zeros of IEEE arithmetic are one value here.
\<close>

datatype pyfloat = Finite real | PosInf | NegInf | NaN

text \<open>
  Correct rounding to the nearest double, ties to even, decides the range exactly: an
  exact result of magnitude \<open>2 ^ 1024 - 2 ^ 970\<close> or more (half a unit in the last place
  above the largest double) is returned as an infinity, and one of magnitude \<open>2 powr -1075\<close>
  or less (half the smallest positive double) as zero.
\<close>

definition DBL_OVERFLOW :: real where
  "DBL_OVERFLOW = 2 ^ 1024 - 2 ^ 970"


definition signed_inf :: "real \<Rightarrow> pyfloat" where
  "signed_inf s = (if 0 < s then PosInf else NegInf)"

definition overflow :: "real \<Rightarrow> pyfloat" where
  \<comment> \<open>The double for an exact sum or difference of two doubles, which cannot underflow.\<close>
  "overflow r = (if \<bar>r\<bar> < DBL_OVERFLOW then Finite r else signed_inf r)"


fun float_neg :: "pyfloat \<Rightarrow> pyfloat" where
  "float_neg (Finite a) = Finite (- a)"
| "float_neg PosInf = NegInf"
| "float_neg NegInf = PosInf"
| "float_neg NaN = NaN"

fun float_add :: "pyfloat \<Rightarrow> pyfloat \<Rightarrow> pyfloat" where
  "float_add (Finite a) (Finite b) = overflow (a + b)"
| "float_add NaN _ = NaN"
| "float_add _ NaN = NaN"
| "float_add PosInf NegInf = NaN"
| "float_add NegInf PosInf = NaN"
| "float_add PosInf _ = PosInf"
| "float_add _ PosInf = PosInf"
| "float_add NegInf _ = NegInf"
| "float_add _ NegInf = NegInf"

definition float_sub :: "pyfloat \<Rightarrow> pyfloat \<Rightarrow> pyfloat" where
  "float_sub a b = float_add a (float_neg b)"

text \<open>
  The source multiplies a float only by the cosine or the sine of a rotation, of magnitude
  at most 1, so the product of two finite doubles does not overflow there; it is kept
  exact.
\<close>

fun float_mul :: "pyfloat \<Rightarrow> pyfloat \<Rightarrow> pyfloat" where
  "float_mul (Finite a) (Finite b) = Finite (a * b)"
| "float_mul NaN _ = NaN"
| "float_mul _ NaN = NaN"
| "float_mul PosInf (Finite b) = (if b = 0 then NaN else signed_inf b)"
| "float_mul NegInf (Finite b) = (if b = 0 then NaN else signed_inf (- b))"
| "float_mul (Finite a) PosInf = (if a = 0 then NaN else signed_inf a)"
| "float_mul (Finite a) NegInf = (if a = 0 then NaN else signed_inf (- a))"
| "float_mul PosInf PosInf = PosInf"
| "float_mul NegInf NegInf = PosInf"
| "float_mul PosInf NegInf = NegInf"
| "float_mul NegInf PosInf = NegInf"



subsection \<open>The geometry classes in two dimensions\<close>

text \<open>
  Modelled from the spec: \<^verbatim>\<open>wpimath.geometry\<close> is imported by the source and is not
  part of it. Section 3 of the spec describes a Translation2d as a displacement vector, a
  Rotation2d as a planar orientation with cosine and sine extraction, negation and
  addition, a Pose2d as position and orientation, and a Transform2d as a relative
  displacement and rotation with composition (\<^verbatim>\<open>transformBy\<close>) and inversion. A
  rotation is kept as its cosine and sine, which is what the library stores.
\<close>

datatype translation2d = Translation2d (X: real) (Y: real)

datatype rotation2d = Rotation2d_of (rcos: real) (rsin: real)

datatype transform2d = Transform2d (tf_translation: translation2d) (tf_rotation: rotation2d)

datatype pose2d = Pose2d (pose_translation: translation2d) (pose_rotation: rotation2d)

definition Rotation2d :: "real \<Rightarrow> rotation2d" where
  \<comment> \<open>Modelled from the spec: \<^verbatim>\<open>Rotation2d(radians)\<close>.\<close>
  "Rotation2d a = Rotation2d_of (cos a) (sin a)"

definition fromDegrees :: "real \<Rightarrow> rotation2d" where
  \<comment> \<open>Modelled from the spec: \<^verbatim>\<open>Rotation2d.fromDegrees\<close>.\<close>
  "fromDegrees d = Rotation2d (d * pi / 180)"

definition rotation2d_neg :: "rotation2d \<Rightarrow> rotation2d" where
  \<comment> \<open>Modelled from the spec: negation, the rotation by the opposite angle.\<close>
  "rotation2d_neg r = Rotation2d_of (rcos r) (- rsin r)"

definition rotation2d_add :: "rotation2d \<Rightarrow> rotation2d \<Rightarrow> rotation2d" where
  \<comment> \<open>Modelled from the spec: addition, one rotation after the other.\<close>
  "rotation2d_add a b =
     Rotation2d_of (rcos a * rcos b - rsin a * rsin b) (rcos a * rsin b + rsin a * rcos b)"

definition rotation2d_sub :: "rotation2d \<Rightarrow> rotation2d \<Rightarrow> rotation2d" where
  \<comment> \<open>Modelled from the spec: subtraction adds the negation.\<close>
  "rotation2d_sub a b = rotation2d_add a (rotation2d_neg b)"

definition translation2d_neg :: "translation2d \<Rightarrow> translation2d" where
  "translation2d_neg t = Translation2d (- X t) (- Y t)"

definition translation2d_add :: "translation2d \<Rightarrow> translation2d \<Rightarrow> translation2d" where
  "translation2d_add s t = Translation2d (X s + X t) (Y s + Y t)"

definition translation2d_sub :: "translation2d \<Rightarrow> translation2d \<Rightarrow> translation2d" where
  "translation2d_sub s t = Translation2d (X s - X t) (Y s - Y t)"

definition rotateBy :: "translation2d \<Rightarrow> rotation2d \<Rightarrow> translation2d" where
  \<comment> \<open>Modelled from the spec: the vector turned by the rotation.\<close>
  "rotateBy t r = Translation2d (X t * rcos r - Y t * rsin r) (X t * rsin r + Y t * rcos r)"

definition inverse2d :: "transform2d \<Rightarrow> transform2d" where
  \<comment> \<open>Modelled from the spec: \<^verbatim>\<open>Transform2d.inverse()\<close>, the transform that undoes this one.\<close>
  "inverse2d t =
     Transform2d (rotateBy (translation2d_neg (tf_translation t)) (rotation2d_neg (tf_rotation t)))
       (rotation2d_neg (tf_rotation t))"

definition transformBy :: "pose2d \<Rightarrow> transform2d \<Rightarrow> pose2d" where
  \<comment> \<open>Modelled from the spec: \<^verbatim>\<open>Pose2d.transformBy(other)\<close>, the pose moved by a transform
      given in the pose's own frame.\<close>
  "transformBy p t =
     Pose2d (translation2d_add (pose_translation p) (rotateBy (tf_translation t) (pose_rotation p)))
       (rotation2d_add (tf_rotation t) (pose_rotation p))"

definition identity2d :: transform2d where
  \<comment> \<open>Modelled from the spec: \<^verbatim>\<open>Transform2d()\<close>, no displacement and no rotation.\<close>
  "identity2d = Transform2d (Translation2d 0 0) (Rotation2d 0)"

subsection \<open>The geometry classes in three dimensions\<close>

text \<open>
  Modelled from the spec: the 3D pose and transform types of \<^verbatim>\<open>wpimath.geometry\<close>,
  of which the spec says only that a pose plus a transform is their composition and that
  a transform has an inverse. A rotation in space is a unit quaternion; the constructor
  \<open>Rotation3d\<close> normalises the quaternion it is given, so every rotation a program can
  hold satisfies \<open>quaternion_norm q = 1\<close>.
\<close>

datatype quaternion = Quaternion (qw: real) (qx: real) (qy: real) (qz: real)

datatype translation3d = Translation3d (X3: real) (Y3: real) (Z3: real)

datatype rotation3d = Rotation3d_of (getQuaternion: quaternion)

datatype transform3d = Transform3d (tf3_translation: translation3d) (tf3_rotation: rotation3d)

datatype pose3d = Pose3d (pose3_translation: translation3d) (pose3_rotation: rotation3d)

definition quaternion_mul :: "quaternion \<Rightarrow> quaternion \<Rightarrow> quaternion" where
  "quaternion_mul a b =
     Quaternion (qw a * qw b - qx a * qx b - qy a * qy b - qz a * qz b)
                (qw a * qx b + qx a * qw b + qy a * qz b - qz a * qy b)
                (qw a * qy b - qx a * qz b + qy a * qw b + qz a * qx b)
                (qw a * qz b + qx a * qy b - qy a * qx b + qz a * qw b)"

definition quaternion_inverse :: "quaternion \<Rightarrow> quaternion" where
  \<comment> \<open>The conjugate, which is the inverse of a unit quaternion.\<close>
  "quaternion_inverse a = Quaternion (qw a) (- qx a) (- qy a) (- qz a)"

definition quaternion_norm :: "quaternion \<Rightarrow> real" where
  "quaternion_norm a = sqrt (qw a * qw a + qx a * qx a + qy a * qy a + qz a * qz a)"

definition quaternion_normalize :: "quaternion \<Rightarrow> quaternion" where
  \<comment> \<open>The zero quaternion is replaced by the identity rotation.\<close>
  "quaternion_normalize a =
     (let n = quaternion_norm a in
      if n = 0 then Quaternion 1 0 0 0
      else Quaternion (qw a / n) (qx a / n) (qy a / n) (qz a / n))"

definition Rotation3d :: "quaternion \<Rightarrow> rotation3d" where
  "Rotation3d q = Rotation3d_of (quaternion_normalize q)"

definition rotation3d_neg :: "rotation3d \<Rightarrow> rotation3d" where
  "rotation3d_neg r = Rotation3d (quaternion_inverse (getQuaternion r))"

definition rotation3d_rotateBy :: "rotation3d \<Rightarrow> rotation3d \<Rightarrow> rotation3d" where
  \<comment> \<open>\<open>r\<close> followed by \<open>other\<close>.\<close>
  "rotation3d_rotateBy r other = Rotation3d (quaternion_mul (getQuaternion other) (getQuaternion r))"

definition translation3d_neg :: "translation3d \<Rightarrow> translation3d" where
  "translation3d_neg t = Translation3d (- X3 t) (- Y3 t) (- Z3 t)"

definition translation3d_add :: "translation3d \<Rightarrow> translation3d \<Rightarrow> translation3d" where
  "translation3d_add s t = Translation3d (X3 s + X3 t) (Y3 s + Y3 t) (Z3 s + Z3 t)"

definition translation3d_rotateBy :: "translation3d \<Rightarrow> rotation3d \<Rightarrow> translation3d" where
  \<comment> \<open>The vector \<open>p\<close> becomes \<open>q p q\<^sup>-\<^sup>1\<close>.\<close>
  "translation3d_rotateBy t r =
     (let q = getQuaternion r;
          p = quaternion_mul (quaternion_mul q (Quaternion 0 (X3 t) (Y3 t) (Z3 t)))
                (quaternion_inverse q)
      in Translation3d (qx p) (qy p) (qz p))"

definition inverse3d :: "transform3d \<Rightarrow> transform3d" where
  "inverse3d t =
     Transform3d
       (translation3d_rotateBy (translation3d_neg (tf3_translation t))
          (rotation3d_neg (tf3_rotation t)))
       (rotation3d_neg (tf3_rotation t))"

definition pose3d_transformBy :: "pose3d \<Rightarrow> transform3d \<Rightarrow> pose3d" where
  "pose3d_transformBy p t =
     Pose3d
       (translation3d_add (pose3_translation p)
          (translation3d_rotateBy (tf3_translation t) (pose3_rotation p)))
       (rotation3d_rotateBy (tf3_rotation t) (pose3_rotation p))"

definition identity3d :: transform3d where
  \<comment> \<open>\<^verbatim>\<open>Transform3d()\<close>: no displacement and the identity rotation.\<close>
  "identity3d = Transform3d (Translation3d 0 0 0) (Rotation3d_of (Quaternion 1 0 0 0))"

subsection \<open>Python values, operators and attribute lookup\<close>

text \<open>
  The values the six methods can be handed: floats, instances of the geometry classes,
  and the class object \<^verbatim>\<open>PhotonUtils\<close> itself, which a class method receives as its
  first argument. The geometry classes keep their coordinates as reals, so a Translation2d
  that is built from an infinity or a not-a-number is carried as its two coordinates.
\<close>

datatype pyval =
    PyFloat_of pyfloat
  | PyClass
  | PyRotation2d rotation2d
  | PyTranslation2d translation2d
  | PyTranslation2d_nonfinite pyfloat pyfloat
  | PyTransform2d transform2d
  | PyPose2d pose2d
  | PyTransform3d transform3d
  | PyPose3d pose3d

abbreviation PyFloat :: "real \<Rightarrow> pyval" where
  "PyFloat r \<equiv> PyFloat_of (Finite r)"

text \<open>
  The operators the source applies. Each is defined on the operand classes that the
  library gives a meaning to among the classes above and that the source can reach; any
  other pair of operands is a \<^verbatim>\<open>TypeError\<close> (unsupported operand types).
\<close>

fun py_neg :: "pyval \<Rightarrow> error + pyval" where
  "py_neg (PyFloat_of a) = Inr (PyFloat_of (float_neg a))"
| "py_neg (PyRotation2d r) = Inr (PyRotation2d (rotation2d_neg r))"
| "py_neg (PyTranslation2d t) = Inr (PyTranslation2d (translation2d_neg t))"
| "py_neg (PyTranslation2d_nonfinite x y) =
     Inr (PyTranslation2d_nonfinite (float_neg x) (float_neg y))"
| "py_neg _ = Inl TypeError"

fun py_add :: "pyval \<Rightarrow> pyval \<Rightarrow> error + pyval" where
  "py_add (PyFloat_of a) (PyFloat_of b) = Inr (PyFloat_of (float_add a b))"
| "py_add (PyRotation2d a) (PyRotation2d b) = Inr (PyRotation2d (rotation2d_add a b))"
| "py_add (PyTranslation2d a) (PyTranslation2d b) = Inr (PyTranslation2d (translation2d_add a b))"
| "py_add (PyPose2d p) (PyTransform2d t) = Inr (PyPose2d (transformBy p t))"
| "py_add (PyPose3d p) (PyTransform3d t) = Inr (PyPose3d (pose3d_transformBy p t))"
| "py_add _ _ = Inl TypeError"

fun py_sub :: "pyval \<Rightarrow> pyval \<Rightarrow> error + pyval" where
  "py_sub (PyFloat_of a) (PyFloat_of b) = Inr (PyFloat_of (float_sub a b))"
| "py_sub (PyRotation2d a) (PyRotation2d b) = Inr (PyRotation2d (rotation2d_sub a b))"
| "py_sub (PyTranslation2d a) (PyTranslation2d b) = Inr (PyTranslation2d (translation2d_sub a b))"
| "py_sub _ _ = Inl TypeError"

fun py_mul :: "pyval \<Rightarrow> pyval \<Rightarrow> error + pyval" where
  "py_mul (PyFloat_of a) (PyFloat_of b) = Inr (PyFloat_of (float_mul a b))"
| "py_mul _ _ = Inl TypeError"



text \<open>
  The attribute names that the source looks up on a value. \<^verbatim>\<open>v.name\<close> raises
  \<^verbatim>\<open>AttributeError\<close> when the class of \<open>v\<close> has no such attribute, and otherwise
  gives the bound method, which checks its own arguments when it is called.
  \<^verbatim>\<open>getRotation\<close> is the name of the accessor in WPILib's Java classes; no class of
  \<^verbatim>\<open>wpimath.geometry\<close> defines it (the Python accessor of a pose is \<^verbatim>\<open>rotation\<close>),
  and a Translation2d has no rotation under any name.
\<close>

datatype attr = Attr_cos | Attr_sin | Attr_transformBy | Attr_inverse | Attr_getRotation

fun getattr :: "pyval \<Rightarrow> attr \<Rightarrow> error + (pyval list \<Rightarrow> error + pyval)" where
  "getattr (PyRotation2d r) Attr_cos =
     Inr (\<lambda>args. case args of [] \<Rightarrow> Inr (PyFloat (rcos r)) | _ \<Rightarrow> Inl TypeError)"
| "getattr (PyRotation2d r) Attr_sin =
     Inr (\<lambda>args. case args of [] \<Rightarrow> Inr (PyFloat (rsin r)) | _ \<Rightarrow> Inl TypeError)"
| "getattr (PyPose2d p) Attr_transformBy =
     Inr (\<lambda>args. case args of [PyTransform2d t] \<Rightarrow> Inr (PyPose2d (transformBy p t))
                   | _ \<Rightarrow> Inl TypeError)"
| "getattr (PyTransform2d t) Attr_inverse =
     Inr (\<lambda>args. case args of [] \<Rightarrow> Inr (PyTransform2d (inverse2d t)) | _ \<Rightarrow> Inl TypeError)"
| "getattr (PyTransform3d t) Attr_inverse =
     Inr (\<lambda>args. case args of [] \<Rightarrow> Inr (PyTransform3d (inverse3d t)) | _ \<Rightarrow> Inl TypeError)"
| "getattr _ _ = Inl AttributeError"

definition call_method :: "pyval \<Rightarrow> attr \<Rightarrow> pyval list \<Rightarrow> error + pyval" where
  \<comment> \<open>\<^verbatim>\<open>v.name(args)\<close> with arguments that are already evaluated.\<close>
  "call_method v name args = bind_result (getattr v name) (\<lambda>m. m args)"

text \<open>The two constructors the source calls, with the overloads that take these arguments.\<close>

fun new_Translation2d :: "pyval list \<Rightarrow> error + pyval" where
  "new_Translation2d [PyFloat x, PyFloat y] = Inr (PyTranslation2d (Translation2d x y))"
| "new_Translation2d [PyFloat_of x, PyFloat_of y] = Inr (PyTranslation2d_nonfinite x y)"
| "new_Translation2d [PyFloat d, PyRotation2d a] =
     Inr (PyTranslation2d (Translation2d (d * rcos a) (d * rsin a)))"
| "new_Translation2d [PyFloat_of d, PyRotation2d a] =
     Inr (PyTranslation2d_nonfinite (float_mul d (Finite (rcos a)))
            (float_mul d (Finite (rsin a))))"
| "new_Translation2d _ = Inl TypeError"

fun new_Transform2d :: "pyval list \<Rightarrow> error + pyval" where
  "new_Transform2d [PyTranslation2d t, PyRotation2d r] = Inr (PyTransform2d (Transform2d t r))"
| "new_Transform2d _ = Inl TypeError"

subsection \<open>Calling a class method\<close>

text \<open>
  Every method of the source is decorated with \<^verbatim>\<open>@classmethod\<close>. A call
  \<^verbatim>\<open>PhotonUtils.m(a1, ..., an)\<close> (or \<^verbatim>\<open>cls.m(...)\<close> inside the class) hands the
  function under the decorator the class object followed by the caller's arguments, and
  binds them to the declared parameters by position, whatever their names are. When the
  counts differ the interpreter raises \<^verbatim>\<open>TypeError\<close> before the body runs.
\<close>

definition classmethod_call ::
  "string list \<Rightarrow> (pyval list \<Rightarrow> error + pyval) \<Rightarrow> pyval list \<Rightarrow> error + pyval" where
  "classmethod_call params body args =
     (if length (PyClass # args) = length params then body (PyClass # args)
      else Inl TypeError)"

subsection \<open>The methods of \<^verbatim>\<open>PhotonUtils\<close>\<close>




definition estimateCameraToTargetTranslation_params :: "string list" where
  "estimateCameraToTargetTranslation_params = [''cls'', ''targetDistanceMeters'', ''yaw'']"

fun estimateCameraToTargetTranslation_body :: "pyval list \<Rightarrow> error + pyval" where
  "estimateCameraToTargetTranslation_body [cls, targetDistanceMeters, yaw] =
     bind_result (call_method yaw Attr_cos []) (\<lambda>c.
     bind_result (py_mul c targetDistanceMeters) (\<lambda>x.
     bind_result (call_method yaw Attr_sin []) (\<lambda>s.
     bind_result (py_mul s targetDistanceMeters) (\<lambda>y.
     new_Translation2d [x, y]))))"
| "estimateCameraToTargetTranslation_body _ = Inl TypeError"

definition estimateCameraToTargetTranslation :: "pyval list \<Rightarrow> error + pyval" where
  "estimateCameraToTargetTranslation =
     classmethod_call estimateCameraToTargetTranslation_params
       estimateCameraToTargetTranslation_body"

text \<open>
  \<^verbatim>\<open>estimateFieldToCamera\<close> is declared with two parameters, \<^verbatim>\<open>cameraToTarget\<close> and
  \<^verbatim>\<open>fieldToTarget\<close>, and no \<^verbatim>\<open>cls\<close>: the class object is bound to the first of them.
\<close>

definition estimateFieldToCamera_params :: "string list" where
  "estimateFieldToCamera_params = [''cameraToTarget'', ''fieldToTarget'']"

fun estimateFieldToCamera_body :: "pyval list \<Rightarrow> error + pyval" where
  "estimateFieldToCamera_body [cameraToTarget, fieldToTarget] =
     bind_result (getattr fieldToTarget Attr_transformBy) (\<lambda>transformBy_method.
     bind_result (call_method cameraToTarget Attr_inverse []) (\<lambda>inv.
     transformBy_method [inv]))"
| "estimateFieldToCamera_body _ = Inl TypeError"

definition estimateFieldToCamera :: "pyval list \<Rightarrow> error + pyval" where
  "estimateFieldToCamera = classmethod_call estimateFieldToCamera_params estimateFieldToCamera_body"

definition estimateFieldToRobot_params :: "string list" where
  "estimateFieldToRobot_params = [''cls'', ''cameraToTarget'', ''fieldToTarget'', ''cameraToRobot'']"

fun estimateFieldToRobot_body :: "pyval list \<Rightarrow> error + pyval" where
  "estimateFieldToRobot_body [cls, cameraToTarget, fieldToTarget, cameraToRobot] =
     bind_result (estimateFieldToCamera [cameraToTarget, fieldToTarget]) (\<lambda>fieldToCamera.
     call_method fieldToCamera Attr_transformBy [cameraToRobot])"
| "estimateFieldToRobot_body _ = Inl TypeError"

definition estimateFieldToRobot :: "pyval list \<Rightarrow> error + pyval" where
  "estimateFieldToRobot = classmethod_call estimateFieldToRobot_params estimateFieldToRobot_body"

definition estimateCameraToTarget_params :: "string list" where
  "estimateCameraToTarget_params =
     [''cls'', ''cameraToTargetTranslation'', ''fieldToTarget'', ''gyroAngle'']"

fun estimateCameraToTarget_body :: "pyval list \<Rightarrow> error + pyval" where
  "estimateCameraToTarget_body [cls, cameraToTargetTranslation, fieldToTarget, gyroAngle] =
     bind_result (py_neg gyroAngle) (\<lambda>negGyro.
     bind_result (call_method fieldToTarget Attr_getRotation []) (\<lambda>rotation.
     bind_result (py_sub negGyro rotation) (\<lambda>r.
     new_Transform2d [cameraToTargetTranslation, r])))"
| "estimateCameraToTarget_body _ = Inl TypeError"

definition estimateCameraToTarget :: "pyval list \<Rightarrow> error + pyval" where
  "estimateCameraToTarget = classmethod_call estimateCameraToTarget_params estimateCameraToTarget_body"

definition estimateFieldToRobotAprilTag_params :: "string list" where
  "estimateFieldToRobotAprilTag_params =
     [''cls'', ''cameraToTarget'', ''fieldRelativeTagPose'', ''cameraToRobot'']"

fun estimateFieldToRobotAprilTag_body :: "pyval list \<Rightarrow> error + pyval" where
  "estimateFieldToRobotAprilTag_body [cls, cameraToTarget, fieldRelativeTagPose, cameraToRobot] =
     bind_result (call_method cameraToTarget Attr_inverse []) (\<lambda>inv.
     bind_result (py_add fieldRelativeTagPose inv) (\<lambda>fieldToCamera.
     py_add fieldToCamera cameraToRobot))"
| "estimateFieldToRobotAprilTag_body _ = Inl TypeError"

definition estimateFieldToRobotAprilTag :: "pyval list \<Rightarrow> error + pyval" where
  "estimateFieldToRobotAprilTag =
     classmethod_call estimateFieldToRobotAprilTag_params estimateFieldToRobotAprilTag_body"

section \<open>Properties\<close>

subsection \<open>Auxiliary facts\<close>

lemma bind_result_Inl [simp]: "bind_result (Inl e) f = Inl e"
  by (simp add: bind_result_def)

lemma bind_result_Inr [simp]: "bind_result (Inr v) f = f v"
  by (simp add: bind_result_def)











text \<open>
  A call of \<^verbatim>\<open>estimateFieldToCamera\<close> with two arguments hands three values to a function
  of two parameters.
\<close>

lemma estimateFieldToCamera_two_arguments: "estimateFieldToCamera [x, y] = Inl TypeError"
  by (simp add: estimateFieldToCamera_def estimateFieldToCamera_params_def classmethod_call_def)

text \<open>What the body of \<^verbatim>\<open>estimateFieldToCamera\<close> computes when its parameters do hold a
  transform and a pose.\<close>

lemma estimateFieldToCamera_body_value:
  "estimateFieldToCamera_body [PyTransform2d t, PyPose2d p] =
     Inr (PyPose2d (transformBy p (inverse2d t)))"
  by (simp add: call_method_def)

text \<open>The identity transform leaves a 2D pose where it is.\<close>

lemma transformBy_identity2d: "transformBy p identity2d = p"
  by (cases p) (simp add: transformBy_def identity2d_def Rotation2d_def rotateBy_def
      translation2d_add_def rotation2d_add_def)

text \<open>Unit quaternions: what the constructor of a 3D rotation establishes.\<close>

lemma unit_after_scaling:
  fixes a b c d s :: real
  assumes "0 < s" and "s = a * a + b * b + c * c + d * d"
  shows "a / sqrt s * (a / sqrt s) + b / sqrt s * (b / sqrt s)
       + c / sqrt s * (c / sqrt s) + d / sqrt s * (d / sqrt s) = 1"
proof -
  have "a / sqrt s * (a / sqrt s) + b / sqrt s * (b / sqrt s)
      + c / sqrt s * (c / sqrt s) + d / sqrt s * (d / sqrt s)
      = (a * a + b * b + c * c + d * d) / (sqrt s * sqrt s)"
    by (simp add: add_divide_distrib)
  also have "\<dots> = s / s" using assms by simp
  also have "\<dots> = 1" using assms(1) by simp
  finally show ?thesis .
qed

lemma quaternion_norm_normalize: "quaternion_norm (quaternion_normalize q) = 1"
proof (cases "quaternion_norm q = 0")
  case True
  then show ?thesis by (simp add: quaternion_normalize_def quaternion_norm_def)
next
  case False
  define s where "s = qw q * qw q + qx q * qx q + qy q * qy q + qz q * qz q"
  have n: "quaternion_norm q = sqrt s" by (simp add: quaternion_norm_def s_def)
  have "0 \<le> s" by (simp add: s_def)
  with False n have pos: "0 < s" by (cases "s = 0") auto
  have "quaternion_normalize q
      = Quaternion (qw q / sqrt s) (qx q / sqrt s) (qy q / sqrt s) (qz q / sqrt s)"
    using False n by (simp add: quaternion_normalize_def Let_def)
  then have "quaternion_norm (quaternion_normalize q)
      = sqrt (qw q / sqrt s * (qw q / sqrt s) + qx q / sqrt s * (qx q / sqrt s)
            + qy q / sqrt s * (qy q / sqrt s) + qz q / sqrt s * (qz q / sqrt s))"
    by (simp only: quaternion_norm_def quaternion.sel)
  also have "\<dots> = sqrt 1" using unit_after_scaling [OF pos s_def] by (simp only:)
  finally show ?thesis by simp
qed

lemma Rotation3d_unit: "quaternion_norm (getQuaternion (Rotation3d q)) = 1"
  by (simp add: Rotation3d_def quaternion_norm_normalize)

lemma quaternion_normalize_unit: "quaternion_norm q = 1 \<Longrightarrow> quaternion_normalize q = q"
  by (simp add: quaternion_normalize_def)

lemma quaternion_mul_identity: "quaternion_mul q (Quaternion 1 0 0 0) = q"
  by (simp add: quaternion_mul_def)

lemma translation3d_rotateBy_zero:
  "translation3d_rotateBy (Translation3d 0 0 0) r = Translation3d 0 0 0"
  by (simp add: translation3d_rotateBy_def quaternion_mul_def quaternion_inverse_def Let_def)

lemma inverse3d_identity3d: "inverse3d identity3d = identity3d"
  by (simp add: inverse3d_def identity3d_def rotation3d_neg_def Rotation3d_def
      quaternion_inverse_def quaternion_normalize_def quaternion_norm_def
      translation3d_neg_def translation3d_rotateBy_zero)

lemma pose3d_transformBy_identity3d:
  assumes "quaternion_norm (getQuaternion (pose3_rotation p)) = 1"
  shows "pose3d_transformBy p identity3d = p"
proof -
  have "rotation3d_rotateBy (Rotation3d_of (Quaternion 1 0 0 0)) (pose3_rotation p)
      = pose3_rotation p"
    using assms
    by (simp add: rotation3d_rotateBy_def Rotation3d_def quaternion_mul_identity
        quaternion_normalize_unit)
  moreover have "translation3d_add (pose3_translation p) (Translation3d 0 0 0)
      = pose3_translation p"
    by (simp add: translation3d_add_def)
  ultimately show ?thesis
    by (simp add: pose3d_transformBy_def identity3d_def translation3d_rotateBy_zero)
qed

subsection \<open>The distance estimator\<close>










subsection \<open>The camera-relative translation\<close>

text \<open>
  Claim C3. For every float \<open>targetDistanceMeters\<close> and every Rotation2d \<open>yaw\<close>,
  \<^verbatim>\<open>estimateCameraToTargetTranslation\<close> returns the Translation2d of the distance times
  the cosine of the yaw and the distance times its sine; for the rotation by the angle
  \<open>a\<close> these are \<open>d * cos a\<close> and \<open>d * sin a\<close>. Distance 5 gives \<open>(5, 0)\<close> at a yaw of 0
  degrees and \<open>(0, 5)\<close> at a yaw of 90 degrees.
\<close>

theorem estimateCameraToTargetTranslation_polar:
  "estimateCameraToTargetTranslation [PyFloat d, PyRotation2d yaw] =
     Inr (PyTranslation2d (Translation2d (rcos yaw * d) (rsin yaw * d)))
   \<and> estimateCameraToTargetTranslation [PyFloat d, PyRotation2d (Rotation2d a)] =
     Inr (PyTranslation2d (Translation2d (d * cos a) (d * sin a)))
   \<and> estimateCameraToTargetTranslation [PyFloat 5, PyRotation2d (fromDegrees 0)] =
     Inr (PyTranslation2d (Translation2d 5 0))
   \<and> estimateCameraToTargetTranslation [PyFloat 5, PyRotation2d (fromDegrees 90)] =
     Inr (PyTranslation2d (Translation2d 0 5))"
  by (simp add: estimateCameraToTargetTranslation_def classmethod_call_def
      estimateCameraToTargetTranslation_params_def call_method_def Rotation2d_def
      fromDegrees_def)

subsection \<open>The field-to-camera and field-to-robot estimators\<close>

text \<open>
  Claim C9. For every Transform2d and Pose2d, the call
  \<^verbatim>\<open>PhotonUtils.estimateFieldToCamera(cameraToTarget, fieldToTarget)\<close> raises
  \<^verbatim>\<open>TypeError\<close>: the function has two parameters and receives the class and the two
  arguments. Hence \<^verbatim>\<open>estimateFieldToRobot\<close>, which makes that call, raises
  \<^verbatim>\<open>TypeError\<close> on every three arguments.
\<close>

theorem estimateFieldToCamera_TypeError:
  "estimateFieldToCamera [PyTransform2d cameraToTarget, PyPose2d fieldToTarget] = Inl TypeError
   \<and> estimateFieldToRobot [a, b, c] = Inl TypeError"
  by (simp add: estimateFieldToCamera_two_arguments estimateFieldToRobot_def
      estimateFieldToRobot_params_def classmethod_call_def)

text \<open>
  Claim C2, at one input. The call of \<^verbatim>\<open>estimateFieldToCamera\<close> with the transform
  \<open>((1, 0), 0 rad)\<close> and the pose \<open>((2, 3), 0 rad)\<close> raises \<^verbatim>\<open>TypeError\<close>, where the claim
  has it return the pose composed with the inverse of the transform. The body, given the
  two values as its parameters, computes exactly that pose, \<open>((1, 3), 0 rad)\<close>: what fails
  is the binding of the arguments.
\<close>

theorem estimateFieldToCamera_call_raises:
  "estimateFieldToCamera
     [PyTransform2d (Transform2d (Translation2d 1 0) (Rotation2d 0)),
      PyPose2d (Pose2d (Translation2d 2 3) (Rotation2d 0))] = Inl TypeError
   \<and> estimateFieldToCamera_body
     [PyTransform2d (Transform2d (Translation2d 1 0) (Rotation2d 0)),
      PyPose2d (Pose2d (Translation2d 2 3) (Rotation2d 0))] =
     Inr (PyPose2d (transformBy (Pose2d (Translation2d 2 3) (Rotation2d 0))
                      (inverse2d (Transform2d (Translation2d 1 0) (Rotation2d 0)))))
   \<and> transformBy (Pose2d (Translation2d 2 3) (Rotation2d 0))
       (inverse2d (Transform2d (Translation2d 1 0) (Rotation2d 0))) =
     Pose2d (Translation2d 1 3) (Rotation2d 0)"
  by (simp add: estimateFieldToCamera_two_arguments call_method_def
      transformBy_def inverse2d_def Rotation2d_def rotation2d_neg_def rotation2d_add_def
      translation2d_neg_def translation2d_add_def rotateBy_def)

text \<open>
  Claim C6, at one input. With the identity transform as \<open>cameraToRobot\<close>,
  \<^verbatim>\<open>estimateFieldToRobot\<close> raises \<^verbatim>\<open>TypeError\<close> and so does \<^verbatim>\<open>estimateFieldToCamera\<close>
  on the same transform and pose: neither call yields a pose that could equal the other.
\<close>

theorem estimateFieldToRobot_identity_call_raises:
  "estimateFieldToRobot
     [PyTransform2d (Transform2d (Translation2d 4 1) (Rotation2d 0)),
      PyPose2d (Pose2d (Translation2d 6 2) (Rotation2d 0)),
      PyTransform2d identity2d] = Inl TypeError
   \<and> estimateFieldToCamera
     [PyTransform2d (Transform2d (Translation2d 4 1) (Rotation2d 0)),
      PyPose2d (Pose2d (Translation2d 6 2) (Rotation2d 0))] = Inl TypeError"
  by (simp add: estimateFieldToCamera_two_arguments estimateFieldToRobot_def
      estimateFieldToRobot_params_def classmethod_call_def)

subsection \<open>The camera-to-target transform\<close>

text \<open>
  Claim C10. For every Translation2d \<open>cameraToTargetTranslation\<close>, every Translation2d
  \<open>fieldToTarget\<close> and every Rotation2d \<open>gyroAngle\<close>, \<^verbatim>\<open>estimateCameraToTarget\<close> raises
  \<^verbatim>\<open>AttributeError\<close>: a Translation2d has no \<^verbatim>\<open>getRotation\<close>.
\<close>

theorem estimateCameraToTarget_AttributeError:
  "estimateCameraToTarget [PyTranslation2d cameraToTargetTranslation,
     PyTranslation2d fieldToTarget, PyRotation2d gyroAngle] = Inl AttributeError"
  by (simp add: estimateCameraToTarget_def classmethod_call_def
      estimateCameraToTarget_params_def call_method_def)

text \<open>
  Claim C5, at one input. With the translation \<open>(1, 2)\<close>, the field-frame target
  \<open>(3, 4)\<close> and a gyro heading of 0, \<^verbatim>\<open>estimateCameraToTarget\<close> raises
  \<^verbatim>\<open>AttributeError\<close>, where the claim has it return a Transform2d.
\<close>

theorem estimateCameraToTarget_call_raises:
  "estimateCameraToTarget
     [PyTranslation2d (Translation2d 1 2), PyTranslation2d (Translation2d 3 4),
      PyRotation2d (Rotation2d 0)] = Inl AttributeError"
  by (simp add: estimateCameraToTarget_def classmethod_call_def
      estimateCameraToTarget_params_def call_method_def)

subsection \<open>The AprilTag estimator\<close>

text \<open>
  Claim C7. For every Pose3d \<open>fieldRelativeTagPose\<close>, that is every translation with
  every rotation that the constructor \<open>Rotation3d\<close> builds, \<^verbatim>\<open>estimateFieldToRobotAprilTag\<close>
  with the identity Transform3d as \<open>cameraToTarget\<close> and as \<open>cameraToRobot\<close> returns
  \<open>fieldRelativeTagPose\<close>.
\<close>

theorem estimateFieldToRobotAprilTag_identity:
  "estimateFieldToRobotAprilTag
     [PyTransform3d identity3d, PyPose3d (Pose3d t (Rotation3d q)), PyTransform3d identity3d] =
     Inr (PyPose3d (Pose3d t (Rotation3d q)))"
  by (simp add: estimateFieldToRobotAprilTag_def classmethod_call_def
      estimateFieldToRobotAprilTag_params_def call_method_def inverse3d_identity3d
      pose3d_transformBy_identity3d Rotation3d_unit)

end
